theory Spec2Isabelle
  imports Main "HOL-Library.Multiset"
begin

section \<open>JavaScript strings\<close>

text \<open>
  A JavaScript string is modelled as a \<open>string\<close>: a list of code units, each below 256
  (the Latin-1 range). Strings holding code units beyond that range are outside the model.
  Every built-in below is the ECMAScript operation restricted to that range.
\<close>

text \<open>\<open>String.prototype.startsWith\<close>.\<close>

fun startsWith :: "string \<Rightarrow> string \<Rightarrow> bool" where
  "startsWith s [] = True"
| "startsWith [] (p # ps) = False"
| "startsWith (c # cs) (p # ps) = (c = p \<and> startsWith cs ps)"

text \<open>\<open>String.prototype.includes\<close>: the argument occurs as a contiguous run.\<close>

fun includesStr :: "string \<Rightarrow> string \<Rightarrow> bool" where
  "includesStr [] sub = (sub = [])"
| "includesStr (c # cs) sub = (startsWith (c # cs) sub \<or> includesStr cs sub)"

text \<open>
  \<open>String.prototype.toLowerCase\<close> on one code unit: \<open>A\<close>..\<open>Z\<close> and the Latin-1
  capitals \<open>0xC0\<close>..\<open>0xDE\<close> (without the multiplication sign \<open>0xD7\<close>) move up by 32.
\<close>

definition lowerChar :: "char \<Rightarrow> char" where
  "lowerChar c =
     (let n = (of_char c :: int)
      in if (65 \<le> n \<and> n \<le> 90) \<or> (192 \<le> n \<and> n \<le> 222 \<and> n \<noteq> 215)
         then char_of (n + 32) else c)"

definition toLowerCase :: "string \<Rightarrow> string" where
  "toLowerCase s = map lowerChar s"

text \<open>
  The white space and line terminators that \<open>trim\<close> and \<open>parseInt\<close> skip: tab, line feed,
  vertical tab, form feed, carriage return, space and no-break space.
\<close>

definition isWhiteSpace :: "char \<Rightarrow> bool" where
  "isWhiteSpace c = ((of_char c :: int) \<in> {9, 10, 11, 12, 13, 32, 160})"

definition trimStart :: "string \<Rightarrow> string" where
  "trimStart s = dropWhile isWhiteSpace s"

definition trim :: "string \<Rightarrow> string" where
  "trim s = rev (dropWhile isWhiteSpace (rev (dropWhile isWhiteSpace s)))"

text \<open>\<open>s.substring(n)\<close> and \<open>s.substring(0, n)\<close> for a natural number \<open>n\<close>.\<close>

definition substringFrom :: "string \<Rightarrow> nat \<Rightarrow> string" where
  "substringFrom s n = drop n s"

definition substringTo :: "string \<Rightarrow> nat \<Rightarrow> string" where
  "substringTo s n = take n s"

text \<open>
  \<open>s.split(sep)\<close> for a separator of one code unit. The result is never empty:
  \<open>"".split(" ")\<close> is \<open>[""]\<close>.
\<close>

fun split :: "char \<Rightarrow> string \<Rightarrow> string list" where
  "split sep [] = [[]]"
| "split sep (c # cs) =
     (if c = sep then [] # split sep cs
      else (case split sep cs of
              [] \<Rightarrow> [[c]]
            | t # ts \<Rightarrow> (c # t) # ts))"

text \<open>\<open>s.replace(/['"]/g, "")\<close>: every single and double quote is removed.\<close>

definition removeQuotes :: "string \<Rightarrow> string" where
  "removeQuotes s = filter (\<lambda>c. c \<noteq> CHR 0x27 \<and> c \<noteq> CHR 0x22) s"

text \<open>
  \<open>s.replace(/^"|"$/g, "")\<close>: a double quote at the start is removed, then a double quote
  at the end of what is left.
\<close>

definition stripEndQuote :: "string \<Rightarrow> string" where
  "stripEndQuote s = (if s \<noteq> [] \<and> last s = CHR 0x22 then butlast s else s)"

definition stripOuterQuotes :: "string \<Rightarrow> string" where
  "stripOuterQuotes s =
     (case s of
        [] \<Rightarrow> []
      | c # cs \<Rightarrow> if c = CHR 0x22 then stripEndQuote cs else stripEndQuote (c # cs))"

text \<open>\<open>s.replace(/\.$/, "")\<close>: one dot at the end of the string is removed.\<close>

definition stripTrailingDot :: "string \<Rightarrow> string" where
  "stripTrailingDot s = (if s \<noteq> [] \<and> last s = CHR ''.'' then butlast s else s)"

section \<open>The resolver\<close>

text \<open>
  The JSON body of a DNS-over-HTTPS reply. \<open>Status\<close> and \<open>Answer\<close> may be missing
  (or \<open>null\<close>): \<open>None\<close>. Of an answer only \<open>data\<close> is read.
\<close>

record answer =
  data :: string

record response =
  Status :: "int option"
  Answer :: "answer list option"

text \<open>
  What a call can raise: the rejection of the HTTP request, which no validator catches,
  and the \<open>TypeError\<close> of the language (a method called on \<open>undefined\<close>, iterating a
  value that is not iterable).
\<close>

datatype error = TransportError string | TypeError

text \<open>\<open>googleDnsService.get\<close>: from the URL to the reply, or the rejection.\<close>

type_synonym resolver = "string \<Rightarrow> error + response"

section \<open>SPF\<close>

text \<open>The qualifier test and the removal of the qualifier in \<open>countDnsLookups\<close>.\<close>

definition stripQualifier :: "string \<Rightarrow> string" where
  "stripQualifier mechanism =
     (if startsWith mechanism ''+'' \<or> startsWith mechanism ''-'' \<or>
         startsWith mechanism ''?'' \<or> startsWith mechanism ''~''
      then substringFrom mechanism 1 else mechanism)"

text \<open>One round of the loop of \<open>countDnsLookups\<close>: the new value of \<open>lookups\<close>.\<close>

definition countStep :: "nat \<Rightarrow> string \<Rightarrow> nat" where
  "countStep lookups mechanism =
     (let mech = stripQualifier mechanism
      in if startsWith mech ''include:'' \<or> startsWith mech ''a:'' \<or>
            startsWith mech ''mx:'' \<or> startsWith mech ''ptr:'' \<or>
            startsWith mech ''exists:'' \<or> startsWith mech ''redirect=''
         then lookups + 1
         else if mech = ''a'' \<or> mech = ''mx'' then lookups + 1
         else lookups)"

definition spfMechanisms :: "string \<Rightarrow> string list" where
  "spfMechanisms spfRecord =
     filter (\<lambda>m. m \<noteq> []) (split CHR '' '' (trim (substringFrom spfRecord 6)))"

definition countDnsLookups :: "string \<Rightarrow> nat" where
  "countDnsLookups spfRecord = foldl countStep 0 (spfMechanisms spfRecord)"

text \<open>
  What the four public operations return: \<open>isValid\<close>, \<open>reason\<close> and one optional field
  more, called \<open>spf\<close>, \<open>dmarc\<close>, \<open>mx\<close> or \<open>dkimSelectors\<close> in the source and \<open>payload\<close>
  here (\<open>None\<close> when the object has no such field).
\<close>

record 'p check_result =
  isValid :: bool
  reason :: string
  payload :: "'p option"

definition failure :: "string \<Rightarrow> 'p check_result" where
  "failure why = \<lparr>isValid = False, reason = why, payload = None\<rparr>"

definition isSpfAnswer :: "answer \<Rightarrow> bool" where
  "isSpfAnswer rec = startsWith (toLowerCase (stripOuterQuotes (data rec))) ''v=spf1''"

definition spfUrl :: "string \<Rightarrow> string" where
  "spfUrl domain = ''/resolve?name='' @ domain @ ''&type=TXT''"

definition checkSpf :: "resolver \<Rightarrow> string \<Rightarrow> error + string check_result" where
  "checkSpf get domain =
     (case get (spfUrl domain) of
        Inl e \<Rightarrow> Inl e
      | Inr response \<Rightarrow>
          if Status response \<noteq> Some 0 then
            Inr (failure ''DNS query failed or returned an error status'')
          else if Answer response = None \<or> length (the (Answer response)) = 0 then
            Inr (failure ''No TXT records found'')
          else
            (let spfRecords = filter isSpfAnswer (the (Answer response))
             in if length spfRecords > 1 then
                  Inr (failure ''Multiple SPF records found'')
                else
                  (case spfRecords of
                     [rec] \<Rightarrow>
                       (let spfText = stripOuterQuotes (data rec)
                        in if countDnsLookups spfText > 10 then
                             Inr (failure ''Too many DNS lookups (exceeds 10)'')
                           else
                             Inr \<lparr>isValid = True, reason = ''Valid SPF record'',
                                  payload = Some spfText\<rparr>)
                   | _ \<Rightarrow> Inr (failure ''No SPF record found''))))"

section \<open>DMARC\<close>

definition isDmarcAnswer :: "answer \<Rightarrow> bool" where
  "isDmarcAnswer rec = includesStr (toLowerCase (data rec)) ''v=dmarc1''"

definition dmarcUrl :: "string \<Rightarrow> string" where
  "dmarcUrl domain = ''/resolve?name=_dmarc.'' @ domain @ ''&type=TXT''"

text \<open>
  The \<open>try\<close> block of the source holds string operations on a string only, which raise
  nothing: its \<open>catch\<close> branch is never taken and has no counterpart here.
\<close>

definition checkDmarc :: "resolver \<Rightarrow> string \<Rightarrow> error + string check_result" where
  "checkDmarc get domain =
     (case get (dmarcUrl domain) of
        Inl e \<Rightarrow> Inl e
      | Inr response \<Rightarrow>
          if Status response \<noteq> Some 0 then
            Inr (failure ''DNS query failed or returned an error status'')
          else if Answer response = None \<or> length (the (Answer response)) = 0 then
            Inr (failure ''No TXT records found'')
          else
            (let dmarcRecords = filter isDmarcAnswer (the (Answer response))
             in if length dmarcRecords = 0 then
                  Inr (failure ''No valid DMARC record found'')
                else if length dmarcRecords > 1 then
                  Inr (failure ''Multiple DMARC records found'')
                else
                  (let dmarcRecord = removeQuotes (data (hd dmarcRecords));
                       isDmarcValid =
                         (startsWith (toLowerCase dmarcRecord) ''v=dmarc1'' \<and>
                          includesStr (toLowerCase dmarcRecord) ''p='' \<and>
                          includesStr (toLowerCase dmarcRecord) ''rua='')
                   in if \<not> isDmarcValid then
                        Inr (failure
                          ''Invalid DMARC record format - missing required tags (v=DMARC1, p=, rua=)'')
                      else
                        Inr \<lparr>isValid = True, reason = ''Valid DMARC record'',
                             payload = Some dmarcRecord\<rparr>)))"

section \<open>MX\<close>

definition isDigit :: "char \<Rightarrow> bool" where
  "isDigit c = (48 \<le> (of_char c :: int) \<and> (of_char c :: int) \<le> 57)"

definition digitValue :: "char \<Rightarrow> int" where
  "digitValue c = of_char c - 48"

definition isAlnum :: "char \<Rightarrow> bool" where
  "isAlnum c =
     (let n = (of_char c :: int)
      in (97 \<le> n \<and> n \<le> 122) \<or> (65 \<le> n \<and> n \<le> 90) \<or> (48 \<le> n \<and> n \<le> 57))"

text \<open>
  The Numbers that \<open>parseInt\<close> returns: \<open>NaN\<close>, the two infinities, \<open>-0\<close>, and the
  integers that are doubles (with \<open>+0\<close> as \<open>Integer 0\<close>).
\<close>

datatype number = NaN | PosInfinity | NegInfinity | NegZero | Integer int

definition isNaN :: "number \<Rightarrow> bool" where
  "isNaN x = (x = NaN)"

text \<open>The comparisons \<open>x < b\<close> and \<open>x > b\<close> of a Number with an integer bound.\<close>

definition numberLess :: "number \<Rightarrow> int \<Rightarrow> bool" where
  "numberLess x b =
     (case x of
        NaN \<Rightarrow> False
      | PosInfinity \<Rightarrow> False
      | NegInfinity \<Rightarrow> True
      | NegZero \<Rightarrow> 0 < b
      | Integer i \<Rightarrow> i < b)"

definition numberGreater :: "number \<Rightarrow> int \<Rightarrow> bool" where
  "numberGreater x b =
     (case x of
        NaN \<Rightarrow> False
      | PosInfinity \<Rightarrow> True
      | NegInfinity \<Rightarrow> False
      | NegZero \<Rightarrow> 0 > b
      | Integer i \<Rightarrow> i > b)"

definition decimalValue :: "string \<Rightarrow> int" where
  "decimalValue ds = foldl (\<lambda>n c. 10 * n + digitValue c) 0 ds"

function bitLength :: "int \<Rightarrow> nat" where
  "bitLength m = (if m \<le> 0 then 0 else Suc (bitLength (m div 2)))"
  by pat_completeness auto
termination
  by (relation "measure nat") auto

declare bitLength.simps [simp del]

text \<open>
  The double nearest to a natural number, ties to the even significand; \<open>None\<close> when
  the number rounds to infinity. Below \<open>2^53\<close> every integer is a double.
\<close>

definition roundToDouble :: "int \<Rightarrow> int option" where
  "roundToDouble m =
     (if m < 9007199254740992 then Some m
      else
        (let e = bitLength m - 53;
             q = m div 2 ^ e;
             r = m mod 2 ^ e;
             q' = (if 2 * r > 2 ^ e \<or> (2 * r = 2 ^ e \<and> odd q) then q + 1 else q);
             v = q' * 2 ^ e
         in if v \<ge> 2 ^ 1024 then None else Some v))"

text \<open>
  \<open>parseInt(s, 10)\<close>: leading white space is skipped, one sign is read, then the longest
  run of decimal digits; no digit gives \<open>NaN\<close>. The value of the digits is rounded to
  the nearest double, as the engine of Node does for radix 10 (the language leaves the
  digits after the twentieth to the engine).
\<close>

definition parseInt10 :: "string \<Rightarrow> number" where
  "parseInt10 s =
     (let t = trimStart s;
          negative = startsWith t ''-'';
          u = (if startsWith t ''+'' \<or> startsWith t ''-'' then substringFrom t 1 else t);
          z = takeWhile isDigit u;
          mathInt = decimalValue z
      in if z = [] then NaN
         else if mathInt = 0 then (if negative then NegZero else Integer 0)
         else (case roundToDouble mathInt of
                 None \<Rightarrow> if negative then NegInfinity else PosInfinity
               | Some v \<Rightarrow> Integer (if negative then - v else v)))"

text \<open>The decimal digits of a natural number.\<close>

function decimalDigits :: "int \<Rightarrow> string" where
  "decimalDigits i =
     (if i < 10 then [char_of (48 + i)]
      else decimalDigits (i div 10) @ [char_of (48 + i mod 10)])"
  by pat_completeness auto
termination
  by (relation "measure nat") auto

declare decimalDigits.simps [simp del]

text \<open>
  \<open>Number::toString\<close> for a positive integer double \<open>v\<close>. Below \<open>2^53\<close> the text is
  the digits of \<open>v\<close>. From there on it is the shortest run of digits \<open>s\<close>, with \<open>n\<close>
  digits before the decimal point, whose value rounds to \<open>v\<close>; of two such runs of the same
  length the one nearer to \<open>v\<close> is taken (an even last digit on a tie), as the engine of
  Node does. Up to 21 digits before the point the run is filled up with zeros, beyond
  that the text has an exponent.
\<close>

definition dropTrailingZeros :: "string \<Rightarrow> string" where
  "dropTrailingZeros ds = rev (dropWhile (\<lambda>c. c = CHR ''0'') (rev ds))"

definition roundTripsAt :: "int \<Rightarrow> nat \<Rightarrow> nat \<Rightarrow> int list" where
  "roundTripsAt v d k =
     (let p = 10 ^ (d - k); lo = v div p
      in filter (\<lambda>s. roundToDouble (s * p) = Some v) [lo, lo + 1])"

definition closestTo :: "int \<Rightarrow> int \<Rightarrow> int list \<Rightarrow> int" where
  "closestTo v p ss =
     (case ss of
        [lo, hi] \<Rightarrow>
          (if 2 * (v - lo * p) < p then lo
           else if 2 * (v - lo * p) > p then hi
           else if even lo then lo else hi)
      | s # _ \<Rightarrow> s
      | [] \<Rightarrow> v)"

definition shortestDigits :: "int \<Rightarrow> string \<times> nat" where
  "shortestDigits v =
     (let d = length (decimalDigits v)
      in case find (\<lambda>k. roundTripsAt v d k \<noteq> []) [1..<18] of
           None \<Rightarrow> (dropTrailingZeros (decimalDigits v), d)
         | Some k \<Rightarrow>
             (let s = closestTo v (10 ^ (d - k)) (roundTripsAt v d k);
                  ds = decimalDigits s
              in (dropTrailingZeros ds, d - k + length ds)))"

definition positiveToString :: "int \<Rightarrow> string" where
  "positiveToString v =
     (if v < 9007199254740992 then decimalDigits v
      else
        (let (ds, n) = shortestDigits v
         in if n \<le> 21 then ds @ replicate (n - length ds) CHR ''0''
            else (if length ds = 1 then ds else hd ds # CHR ''.'' # tl ds) @
                 ''e+'' @ decimalDigits (int n - 1)))"

text \<open>The text of a Number inside a template literal.\<close>

definition numberToString :: "number \<Rightarrow> string" where
  "numberToString x =
     (case x of
        NaN \<Rightarrow> ''NaN''
      | PosInfinity \<Rightarrow> ''Infinity''
      | NegInfinity \<Rightarrow> ''-Infinity''
      | NegZero \<Rightarrow> ''0''
      | Integer i \<Rightarrow> if i < 0 then ''-'' @ positiveToString (- i) else positiveToString i)"

record mx_entry =
  preference :: number
  exchange :: string

text \<open>
  The callback of \<open>data.Answer.map\<close>. The destructuring takes the first two pieces of the
  split; with no space in the text the second is \<open>undefined\<close> and \<open>exchange.toLowerCase()\<close>
  raises a \<open>TypeError\<close>.
\<close>

definition parseMxAnswer :: "answer \<Rightarrow> error + mx_entry" where
  "parseMxAnswer a =
     (case split CHR '' '' (data a) of
        p # e # _ \<Rightarrow>
          Inr \<lparr>preference = parseInt10 p, exchange = stripTrailingDot (toLowerCase e)\<rparr>
      | _ \<Rightarrow> Inl TypeError)"

fun parseMxAnswers :: "answer list \<Rightarrow> error + mx_entry list" where
  "parseMxAnswers [] = Inr []"
| "parseMxAnswers (a # as) =
     (case parseMxAnswer a of
        Inl e \<Rightarrow> Inl e
      | Inr r \<Rightarrow> (case parseMxAnswers as of Inl e \<Rightarrow> Inl e | Inr rs \<Rightarrow> Inr (r # rs)))"

text \<open>\<open>/^\d{1,3}\.\d{1,3}\.\d{1,3}\.\d{1,3}$/\<close>: four runs of one to three digits, joined by dots.\<close>

definition isIpLiteral :: "string \<Rightarrow> bool" where
  "isIpLiteral s =
     (let parts = split CHR ''.'' s
      in length parts = 4 \<and>
         list_all (\<lambda>p. 1 \<le> length p \<and> length p \<le> 3 \<and> list_all isDigit p) parts)"

text \<open>
  The hostname pattern of the source: labels joined by dots, each label one
  alphanumeric, or up to 63 alphanumerics and hyphens that starts and ends with an alphanumeric.
\<close>

definition isLabel :: "string \<Rightarrow> bool" where
  "isLabel l =
     (1 \<le> length l \<and> length l \<le> 63 \<and> isAlnum (hd l) \<and> isAlnum (last l) \<and>
      list_all (\<lambda>c. isAlnum c \<or> c = CHR ''-'') l)"

definition isHostname :: "string \<Rightarrow> bool" where
  "isHostname s = list_all isLabel (split CHR ''.'' s)"

text \<open>The loop over the parsed records; \<open>mxRecords\<close> is the whole list, returned at the end.\<close>

fun validateMxRecords :: "mx_entry list \<Rightarrow> mx_entry list \<Rightarrow> mx_entry list check_result" where
  "validateMxRecords mxRecords [] =
     \<lparr>isValid = True, reason = ''All MX records are valid'', payload = Some mxRecords\<rparr>"
| "validateMxRecords mxRecords (rec # rest) =
     (if isNaN (preference rec) \<or> numberLess (preference rec) 0 \<or>
         numberGreater (preference rec) 65535 then
        failure (''Invalid preference value: '' @ numberToString (preference rec) @
                 ''. Must be between 0 and 65535'')
      else if isIpLiteral (exchange rec) then
        failure (''MX exchange cannot be an IP address: '' @ exchange rec)
      else if \<not> isHostname (exchange rec) then
        failure (''Invalid hostname format: '' @ exchange rec)
      else validateMxRecords mxRecords rest)"

definition mxUrl :: "string \<Rightarrow> string" where
  "mxUrl domain = ''/resolve?name='' @ domain @ ''&type=MX''"

definition checkMx :: "resolver \<Rightarrow> string \<Rightarrow> error + mx_entry list check_result" where
  "checkMx get domain =
     (case get (mxUrl domain) of
        Inl e \<Rightarrow> Inl e
      | Inr response \<Rightarrow>
          if Status response \<noteq> Some 0 then
            Inr (failure ''DNS query failed or returned an error status'')
          else
            (case Answer response of
               None \<Rightarrow> Inr (failure ''No MX records found for the domain'')
             | Some answers \<Rightarrow>
                 (case parseMxAnswers answers of
                    Inl e \<Rightarrow> Inl e
                  | Inr mxRecords \<Rightarrow>
                      if length mxRecords = 0 then
                        Inr (failure ''No valid MX records found'')
                      else if card (set (map exchange mxRecords)) \<noteq> length mxRecords then
                        Inr (failure ''Duplicate MX exchanges found'')
                      else Inr (validateMxRecords mxRecords mxRecords))))"

section \<open>DKIM\<close>

definition commonDkimSelectors :: "string list" where
  "commonDkimSelectors =
     [''google'', ''selector1'', ''selector2'', ''k1'', ''k2'', ''ctct1'', ''ctct2'', ''sm'',
      ''s1'', ''s2'', ''sig1'', ''litesrv'', ''zendesk1'', ''zendesk2'', ''mail'', ''email'',
      ''dkim'', ''default'']"

text \<open>
  \<open>dkimSelectorsForProviders[provider]\<close>. The object has two properties of its own. Under
  every other key the lookup gives \<open>undefined\<close>, or a member of \<open>Object.prototype\<close>,
  none of which is iterable: \<open>None\<close> stands for both.
\<close>

definition dkimSelectorsForProviders :: "string \<Rightarrow> string list option" where
  "dkimSelectorsForProviders provider =
     (if provider = ''google'' then Some [''google'']
      else if provider = ''microsoft'' then Some [''selector1'', ''selector2'']
      else None)"

text \<open>\<open>DkimValidationResult\<close>: \<open>isValid\<close> is \<open>true\<close>, \<open>false\<close> or \<open>null\<close> (\<open>None\<close>).\<close>

record dkim_validation_result =
  selectorIsValid :: "bool option"
  selectorReason :: string

definition truncateRecord :: "string \<Rightarrow> string" where
  "truncateRecord rec =
     (if length rec \<le> 50 then rec else substringTo rec 50 @ ''...'')"

definition isValidDkimRecord :: "string \<Rightarrow> bool" where
  "isValidDkimRecord rec =
     (let cleanRecord = removeQuotes rec;
          parts = map trim (split CHR '';'' cleanRecord);
          hasVersion = list_ex (\<lambda>part. startsWith part ''v=DKIM1'') parts;
          hasKey = list_ex (\<lambda>part. startsWith part ''k='') parts;
          hasPublicKey =
            list_ex (\<lambda>part. if \<not> startsWith part ''p='' then False
                            else length (trim (substringFrom part 2)) > 0) parts
      in hasVersion \<and> hasKey \<and> hasPublicKey)"

definition isDkimAnswer :: "answer \<Rightarrow> bool" where
  "isDkimAnswer rec = includesStr (toLowerCase (data rec)) ''v=dkim1''"

definition dkimUrl :: "string \<Rightarrow> string \<Rightarrow> string" where
  "dkimUrl domain selector =
     ''/resolve?name='' @ selector @ ''._domainkey.'' @ domain @ ''&type=TXT''"

definition validateDkimForSelector ::
  "resolver \<Rightarrow> string \<Rightarrow> string \<Rightarrow> error + dkim_validation_result" where
  "validateDkimForSelector get domain selector =
     (case get (dkimUrl domain selector) of
        Inl e \<Rightarrow> Inl e
      | Inr response \<Rightarrow>
          if Answer response = None \<or> length (the (Answer response)) = 0 then
            Inr \<lparr>selectorIsValid = None,
                 selectorReason = ''No DKIM records found for selector '' @ selector\<rparr>
          else
            (let validDkimRecords = filter isDkimAnswer (the (Answer response))
             in if length validDkimRecords > 1 then
                  Inr \<lparr>selectorIsValid = Some False,
                       selectorReason = ''Multiple DKIM records found for selector '' @ selector\<rparr>
                else if length validDkimRecords = 0 then
                  Inr \<lparr>selectorIsValid = Some False,
                       selectorReason = ''No valid DKIM records found for selector '' @ selector\<rparr>
                else
                  (let rec = data (hd validDkimRecords)
                   in if \<not> isValidDkimRecord rec then
                        Inr \<lparr>selectorIsValid = Some False,
                             selectorReason = ''Invalid DKIM record format for selector '' @
                                              selector @ '' - '' @ truncateRecord rec\<rparr>
                      else
                        Inr \<lparr>selectorIsValid = Some True,
                             selectorReason = ''All checks passed''\<rparr>)))"

text \<open>
  \<open>Map.prototype.set\<close> on the entries in insertion order: a key already there keeps its
  place and takes the new value, a new key goes to the end.
\<close>

fun mapSet :: "string \<Rightarrow> string \<Rightarrow> (string \<times> string) list \<Rightarrow> (string \<times> string) list" where
  "mapSet k v [] = [(k, v)]"
| "mapSet k v (e # es) = (if fst e = k then (k, v) # es else e # mapSet k v es)"

text \<open>
  The loop of \<open>checkDkim\<close> over the selectors still to probe, with \<open>foundValidSelectors\<close>
  as it stands, and the statements after the loop once the list is used up.
\<close>

fun checkSelectors ::
  "resolver \<Rightarrow> string \<Rightarrow> string list \<Rightarrow> (string \<times> string) list \<Rightarrow>
   error + string list check_result" where
  "checkSelectors get domain [] foundValidSelectors =
     (if length foundValidSelectors > 0 then
        Inr \<lparr>isValid = True, reason = ''DKIM records found'',
             payload = Some (map fst foundValidSelectors)\<rparr>
      else Inr (failure ''No valid DKIM records found''))"
| "checkSelectors get domain (selector # rest) foundValidSelectors =
     (case validateDkimForSelector get domain selector of
        Inl e \<Rightarrow> Inl e
      | Inr result \<Rightarrow>
          if selectorIsValid result = Some True then
            checkSelectors get domain rest
              (mapSet selector (selectorReason result) foundValidSelectors)
          else if selectorIsValid result = Some False \<and>
                  \<not> includesStr (selectorReason result) ''No DKIM records found'' \<and>
                  \<not> includesStr (selectorReason result) ''No valid DKIM records found'' then
            Inr (failure (selectorReason result))
          else checkSelectors get domain rest foundValidSelectors)"

text \<open>
  The test of the loop that makes a probe's failure the result of the whole check:
  \<open>isValid\<close> is \<open>false\<close> and the reason holds neither of the two marker texts.
\<close>

definition isHardFailure :: "dkim_validation_result \<Rightarrow> bool" where
  "isHardFailure r =
     (selectorIsValid r = Some False \<and>
      \<not> includesStr (selectorReason r) ''No DKIM records found'' \<and>
      \<not> includesStr (selectorReason r) ''No valid DKIM records found'')"

text \<open>
  \<open>provider\<close> is \<open>None\<close> when the argument is left out. The conditional of the source
  tests its truthiness: the empty string counts as left out too. Iterating what the
  table gives for an unknown key raises a \<open>TypeError\<close>.
\<close>

definition checkDkim :: "resolver \<Rightarrow> string \<Rightarrow> string option \<Rightarrow> error + string list check_result" where
  "checkDkim get domain provider =
     (let selectorsToCheck =
            (if provider \<noteq> None \<and> the provider \<noteq> []
             then dkimSelectorsForProviders (the provider)
             else Some commonDkimSelectors)
      in case selectorsToCheck of
           None \<Rightarrow> Inl TypeError
         | Some selectors \<Rightarrow> checkSelectors get domain selectors [])"

section \<open>Resolvers for concrete runs\<close>

text \<open>
  \<open>mockResolvedValue\<close> of the test suite: every request is answered by the same reply.
\<close>

definition mockResolvedValue :: "response \<Rightarrow> resolver" where
  "mockResolvedValue r = (\<lambda>url. Inr r)"

text \<open>
  \<open>mockImplementation\<close> of the test suite: the reply depends on the URL; a URL that is
  not in the table gets the reply for a name that does not exist.
\<close>

definition mockImplementation :: "(string \<times> response) list \<Rightarrow> resolver" where
  "mockImplementation table url =
     (case map_of table url of
        Some r \<Rightarrow> Inr r
      | None \<Rightarrow> Inr \<lparr>Status = Some 3, Answer = None\<rparr>)"

section \<open>The lookup count in the words of the specification\<close>

text \<open>
  The mechanisms that cost a DNS lookup, as the specification lists them: a term that is
  exactly \<open>a\<close> or \<open>mx\<close>, or that begins with one of six prefixes.
\<close>

definition lookupPrefixes :: "string list" where
  "lookupPrefixes = [''include:'', ''a:'', ''mx:'', ''ptr:'', ''exists:'', ''redirect='']"

definition incursLookup :: "string \<Rightarrow> bool" where
  "incursLookup t =
     (t = ''a'' \<or> t = ''mx'' \<or> list_ex (\<lambda>p. take (length p) t = p) lookupPrefixes)"

text \<open>A term without its leading qualifier character, when it has one.\<close>

definition withoutQualifier :: "string \<Rightarrow> string" where
  "withoutQualifier t =
     (case t of [] \<Rightarrow> [] | c # cs \<Rightarrow> if c \<in> set ''+-?~'' then cs else t)"

text \<open>
  The count as the specification words it: the six characters of the prefix are taken
  off, the rest is split on spaces, each piece loses one qualifier, and the pieces that
  cost a lookup are counted.
\<close>

definition spec_lookupCount :: "string \<Rightarrow> nat" where
  "spec_lookupCount text =
     length (filter incursLookup (map withoutQualifier (split CHR '' '' (drop 6 text))))"

text \<open>The same count with the white space around the rest trimmed before the split.\<close>

definition spec_lookupCount_trimmed :: "string \<Rightarrow> nat" where
  "spec_lookupCount_trimmed text =
     length (filter incursLookup (map withoutQualifier (split CHR '' '' (trim (drop 6 text)))))"



section \<open>Lower case in the words of the specification\<close>

text \<open>
  The capital letters of the Latin-1 range and, place by place, their small letters:
  the alphabet, then the accented capitals. To lower-case a string is to put the small
  letter for every capital and to leave every other character as it is.
\<close>

definition upperCaseLetters :: string where
  "upperCaseLetters =
     ''ABCDEFGHIJKLMNOPQRSTUVWXYZ'' @
       [CHR 0xC0, CHR 0xC1, CHR 0xC2, CHR 0xC3, CHR 0xC4, CHR 0xC5, CHR 0xC6, CHR 0xC7,
        CHR 0xC8, CHR 0xC9, CHR 0xCA, CHR 0xCB, CHR 0xCC, CHR 0xCD, CHR 0xCE, CHR 0xCF,
        CHR 0xD0, CHR 0xD1, CHR 0xD2, CHR 0xD3, CHR 0xD4, CHR 0xD5, CHR 0xD6, CHR 0xD8,
        CHR 0xD9, CHR 0xDA, CHR 0xDB, CHR 0xDC, CHR 0xDD, CHR 0xDE]"

definition lowerCaseLetters :: string where
  "lowerCaseLetters =
     ''abcdefghijklmnopqrstuvwxyz'' @
       [CHR 0xE0, CHR 0xE1, CHR 0xE2, CHR 0xE3, CHR 0xE4, CHR 0xE5, CHR 0xE6, CHR 0xE7,
        CHR 0xE8, CHR 0xE9, CHR 0xEA, CHR 0xEB, CHR 0xEC, CHR 0xED, CHR 0xEE, CHR 0xEF,
        CHR 0xF0, CHR 0xF1, CHR 0xF2, CHR 0xF3, CHR 0xF4, CHR 0xF5, CHR 0xF6, CHR 0xF8,
        CHR 0xF9, CHR 0xFA, CHR 0xFB, CHR 0xFC, CHR 0xFD, CHR 0xFE]"

definition spec_lowerCased :: "char \<Rightarrow> char" where
  "spec_lowerCased c =
     (case map_of (zip upperCaseLetters lowerCaseLetters) c of
        None \<Rightarrow> c
      | Some small \<Rightarrow> small)"

section \<open>Properties of the string operations\<close>

lemma startsWith_iff: "startsWith s p \<longleftrightarrow> (\<exists>t. s = p @ t)"
  by (induction s p rule: startsWith.induct) auto

lemma includesStr_iff: "includesStr s sub \<longleftrightarrow> (\<exists>a b. s = a @ sub @ b)"
proof (induction s)
  case Nil
  then show ?case by auto
next
  case (Cons c cs)
  show ?case
  proof
    assume "includesStr (c # cs) sub"
    then consider "startsWith (c # cs) sub" | "includesStr cs sub" by auto
    then show "\<exists>a b. c # cs = a @ sub @ b"
    proof cases
      case 1
      then obtain t where "c # cs = sub @ t" by (auto simp: startsWith_iff)
      then have "c # cs = [] @ sub @ t" by simp
      then show ?thesis by blast
    next
      case 2
      then obtain a b where "cs = a @ sub @ b" using Cons.IH by auto
      then have "c # cs = (c # a) @ sub @ b" by simp
      then show ?thesis by blast
    qed
  next
    assume "\<exists>a b. c # cs = a @ sub @ b"
    then obtain a b where ab: "c # cs = a @ sub @ b" by blast
    show "includesStr (c # cs) sub"
    proof (cases a)
      case Nil
      with ab have "startsWith (c # cs) sub" unfolding startsWith_iff by auto
      then show ?thesis by simp
    next
      case (Cons x xs)
      with ab have "cs = xs @ sub @ b" by simp
      then show ?thesis using Cons.IH by auto
    qed
  qed
qed

lemma split_not_Nil: "split sep s \<noteq> []"
  by (induction s) (auto split: list.splits)

lemma split_no_sep: "sep \<notin> set s \<Longrightarrow> split sep s = [s]"
  by (induction s) auto

lemma split_append_sep:
  "sep \<notin> set a \<Longrightarrow> split sep (a @ sep # b) = a # split sep b"
  by (induction a) auto

section \<open>Resolution failures\<close>

text \<open>
  C1, as amended. \<open>checkSpf\<close>, \<open>checkDmarc\<close> and \<open>checkMx\<close> test \<open>Status\<close> before they read
  \<open>Answer\<close>: a reply whose \<open>Status\<close> is not \<open>0\<close> (or is missing) gives the failure
  "DNS query failed or returned an error status", whatever \<open>Answer\<close> holds.
\<close>

theorem status_short_circuit:
  assumes "Status response \<noteq> Some 0"
  shows "(get (spfUrl domain) = Inr response \<longrightarrow>
            checkSpf get domain =
              Inr (failure ''DNS query failed or returned an error status'')) \<and>
         (get (dmarcUrl domain) = Inr response \<longrightarrow>
            checkDmarc get domain =
              Inr (failure ''DNS query failed or returned an error status'')) \<and>
         (get (mxUrl domain) = Inr response \<longrightarrow>
            checkMx get domain =
              Inr (failure ''DNS query failed or returned an error status''))"
  using assms by (simp add: checkSpf_def checkDmarc_def checkMx_def)

theorem status_short_circuit_witness:
  "checkSpf (mockResolvedValue \<lparr>Status = Some 3, Answer = Some [\<lparr>data = ''v=spf1 -all''\<rparr>]\<rparr>)
     ''example.com'' = Inr (failure ''DNS query failed or returned an error status'') \<and>
   checkDmarc (mockResolvedValue \<lparr>Status = Some 3, Answer = Some [\<lparr>data = ''v=spf1 -all''\<rparr>]\<rparr>)
     ''example.com'' = Inr (failure ''DNS query failed or returned an error status'') \<and>
   checkMx (mockResolvedValue \<lparr>Status = Some 3, Answer = Some [\<lparr>data = ''v=spf1 -all''\<rparr>]\<rparr>)
     ''example.com'' = Inr (failure ''DNS query failed or returned an error status'')"
  using status_short_circuit
    [of "\<lparr>Status = Some 3, Answer = Some [\<lparr>data = ''v=spf1 -all''\<rparr>]\<rparr>"
        "mockResolvedValue \<lparr>Status = Some 3, Answer = Some [\<lparr>data = ''v=spf1 -all''\<rparr>]\<rparr>"
        "''example.com''"]
  by (simp add: mockResolvedValue_def)

text \<open>
  C1 as stated also covers the probe of one DKIM selector. That probe never reads
  \<open>Status\<close>: a reply with \<open>Status\<close> 3 and a well-formed DKIM record is accepted.
\<close>

theorem dkim_probe_ignores_status:
  "validateDkimForSelector
     (mockResolvedValue \<lparr>Status = Some 3, Answer = Some [\<lparr>data = ''v=DKIM1; k=rsa; p=KEY''\<rparr>]\<rparr>)
     ''example.com'' ''google'' =
   Inr \<lparr>selectorIsValid = Some True, selectorReason = ''All checks passed''\<rparr>"
  by code_simp

section \<open>No TXT answers\<close>

text \<open>
  C2, as amended. When the reply to the SPF or DMARC query has \<open>Status\<close> 0 and no answers
  (\<open>Answer\<close> missing or an empty list), the validator returns \<open>isValid: false\<close> with the
  reason "No TXT records found".
\<close>

theorem no_txt_records:
  assumes "Status response = Some 0"
    and "Answer response = None \<or> Answer response = Some []"
  shows "(get (spfUrl domain) = Inr response \<longrightarrow>
            checkSpf get domain = Inr (failure ''No TXT records found'')) \<and>
         (get (dmarcUrl domain) = Inr response \<longrightarrow>
            checkDmarc get domain = Inr (failure ''No TXT records found''))"
  using assms by (auto simp add: checkSpf_def checkDmarc_def)

theorem no_txt_records_witness:
  "checkSpf (mockResolvedValue \<lparr>Status = Some 0, Answer = Some []\<rparr>) ''example.com'' =
     Inr (failure ''No TXT records found'') \<and>
   checkDmarc (mockResolvedValue \<lparr>Status = Some 0, Answer = Some []\<rparr>) ''example.com'' =
     Inr (failure ''No TXT records found'')"
  using no_txt_records
    [of "\<lparr>Status = Some 0, Answer = Some []\<rparr>"
        "mockResolvedValue \<lparr>Status = Some 0, Answer = Some []\<rparr>" "''example.com''"]
  by (simp add: mockResolvedValue_def)

text \<open>
  C2 as stated leaves \<open>Status\<close> open. A reply with \<open>Status\<close> 3 and no answers, the reply for
  a name that does not exist, gives the other reason.
\<close>

theorem no_txt_records_counterexample:
  "checkSpf (mockResolvedValue \<lparr>Status = Some 3, Answer = None\<rparr>) ''example.com'' =
     Inr (failure ''DNS query failed or returned an error status'') \<and>
   checkDmarc (mockResolvedValue \<lparr>Status = Some 3, Answer = None\<rparr>) ''example.com'' =
     Inr (failure ''DNS query failed or returned an error status'') \<and>
   (failure ''DNS query failed or returned an error status'' :: string check_result) \<noteq>
     failure ''No TXT records found''"
  by (simp add: checkSpf_def checkDmarc_def mockResolvedValue_def failure_def)

section \<open>MX answers without a separator\<close>

lemma parseMxAnswer_no_space:
  "CHR '' '' \<notin> set (data a) \<Longrightarrow> parseMxAnswer a = Inl TypeError"
  by (simp add: parseMxAnswer_def split_no_sep)

lemma parseMxAnswer_error: "parseMxAnswer a = Inl e \<Longrightarrow> e = TypeError"
  by (auto simp: parseMxAnswer_def split: list.splits)

lemma parseMxAnswers_error: "parseMxAnswers as = Inl e \<Longrightarrow> e = TypeError"
  by (induction as arbitrary: e) (auto split: sum.splits dest: parseMxAnswer_error)

lemma parseMxAnswers_no_space:
  "\<exists>a \<in> set as. CHR '' '' \<notin> set (data a) \<Longrightarrow> parseMxAnswers as = Inl TypeError"
proof (induction as)
  case Nil
  then show ?case by simp
next
  case (Cons a as)
  show ?case
  proof (cases "parseMxAnswer a")
    case (Inl e)
    then show ?thesis using parseMxAnswer_error by auto
  next
    case (Inr r)
    then have "CHR '' '' \<in> set (data a)" using parseMxAnswer_no_space by fastforce
    with Cons.prems have "\<exists>a \<in> set as. CHR '' '' \<notin> set (data a)" by auto
    then have "parseMxAnswers as = Inl TypeError" by (rule Cons.IH)
    with Inr show ?thesis by simp
  qed
qed

text \<open>
  C10. When the reply has \<open>Status\<close> 0 and its answer list holds a record whose text has no
  space, \<open>checkMx\<close> raises a \<open>TypeError\<close>: it returns no result at all.
\<close>

theorem checkMx_raises_without_separator:
  assumes "get (mxUrl domain) = Inr response"
    and "Status response = Some 0"
    and "Answer response = Some answers"
    and "a \<in> set answers"
    and "CHR '' '' \<notin> set (data a)"
  shows "checkMx get domain = Inl TypeError"
proof -
  have "parseMxAnswers answers = Inl TypeError"
    using assms(4,5) by (intro parseMxAnswers_no_space) blast
  with assms(1-3) show ?thesis by (simp add: checkMx_def)
qed

theorem checkMx_raises_without_separator_witness:
  "checkMx (mockResolvedValue \<lparr>Status = Some 0, Answer = Some [\<lparr>data = ''10''\<rparr>]\<rparr>)
     ''example.com'' = Inl TypeError"
  using checkMx_raises_without_separator
    [of "mockResolvedValue \<lparr>Status = Some 0, Answer = Some [\<lparr>data = ''10''\<rparr>]\<rparr>"
        "''example.com''" "\<lparr>Status = Some 0, Answer = Some [\<lparr>data = ''10''\<rparr>]\<rparr>"
        "[\<lparr>data = ''10''\<rparr>]" "\<lparr>data = ''10''\<rparr>"]
  by (simp add: mockResolvedValue_def)

section \<open>The provider argument\<close>

text \<open>
  C7, as amended. For every non-empty provider string that is neither "google" nor
  "microsoft", \<open>checkDkim\<close> raises an error: no query is sent and no result is returned.
\<close>

theorem unknown_provider_raises:
  assumes "provider \<noteq> []" and "provider \<noteq> ''google''" and "provider \<noteq> ''microsoft''"
  shows "checkDkim get domain (Some provider) = Inl TypeError"
  using assms by (simp add: checkDkim_def dkimSelectorsForProviders_def)

theorem unknown_provider_raises_witness:
  "checkDkim (mockResolvedValue \<lparr>Status = Some 3, Answer = None\<rparr>) ''example.com''
     (Some ''invalid-provider'') = Inl TypeError"
  using unknown_provider_raises [of "''invalid-provider''"] by simp

text \<open>
  C7 as stated covers every provider that is neither of the two names. The empty string
  is one, and the conditional of \<open>checkDkim\<close> takes it for a provider left out: the common
  selectors are probed and a result is returned.
\<close>

theorem empty_provider_falls_back:
  "checkDkim (mockResolvedValue \<lparr>Status = Some 3, Answer = None\<rparr>) ''example.com'' (Some '''') =
     Inr (failure ''No valid DKIM records found'')"
  by code_simp

section \<open>Parsing one MX answer\<close>

lemma isDigit_char_of: "0 \<le> d \<Longrightarrow> d < 10 \<Longrightarrow> isDigit (char_of (48 + d :: int))"
  by (simp add: isDigit_def)

lemma digitValue_char_of: "0 \<le> d \<Longrightarrow> d < 10 \<Longrightarrow> digitValue (char_of (48 + d :: int)) = d"
  by (simp add: digitValue_def)

lemma decimalDigits_digits: "0 \<le> n \<Longrightarrow> list_all isDigit (decimalDigits n)"
proof (induction n rule: decimalDigits.induct)
  case (1 n)
  show ?case
  proof (cases "n < 10")
    case True
    then show ?thesis
      using "1.prems" by (subst decimalDigits.simps) (simp add: isDigit_char_of)
  next
    case False
    then have "list_all isDigit (decimalDigits (n div 10))" using "1.IH" by simp
    then show ?thesis
      using False by (subst decimalDigits.simps) (simp add: isDigit_char_of)
  qed
qed

lemma decimalDigits_not_Nil: "decimalDigits n \<noteq> []"
  by (subst decimalDigits.simps) simp

lemma decimalValue_snoc: "decimalValue (ds @ [c]) = 10 * decimalValue ds + digitValue c"
  by (simp add: decimalValue_def)

lemma decimalValue_decimalDigits: "0 \<le> n \<Longrightarrow> decimalValue (decimalDigits n) = n"
proof (induction n rule: decimalDigits.induct)
  case (1 n)
  show ?case
  proof (cases "n < 10")
    case True
    then show ?thesis
      using "1.prems"
      by (subst decimalDigits.simps) (simp add: decimalValue_def digitValue_char_of)
  next
    case False
    then have ih: "decimalValue (decimalDigits (n div 10)) = n div 10"
      using "1.IH" by simp
    have d: "digitValue (char_of (48 + n mod 10)) = n mod 10"
      by (simp add: digitValue_char_of)
    have "decimalDigits n = decimalDigits (n div 10) @ [char_of (48 + n mod 10)]"
      using False by (subst decimalDigits.simps) simp
    then have "decimalValue (decimalDigits n) = 10 * (n div 10) + n mod 10"
      using ih d by (simp only: decimalValue_snoc)
    then show ?thesis by simp
  qed
qed

lemma isDigit_not_special:
  "isDigit c \<Longrightarrow> \<not> isWhiteSpace c \<and> c \<noteq> CHR ''+'' \<and> c \<noteq> CHR ''-''"
  by (auto simp: isDigit_def isWhiteSpace_def)

lemma parseInt10_digits:
  assumes "ds \<noteq> []" and "list_all isDigit ds" and "decimalValue ds < 9007199254740992"
  shows "parseInt10 ds = Integer (decimalValue ds)"
proof -
  obtain c cs where ds: "ds = c # cs" using assms(1) by (cases ds) auto
  with assms(2) have c: "isDigit c" by simp
  have t: "trimStart ds = ds"
    using c isDigit_not_special ds by (simp add: trimStart_def)
  have s: "\<not> startsWith ds ''+''" "\<not> startsWith ds ''-''"
    using c isDigit_not_special ds by auto
  have z: "takeWhile isDigit ds = ds"
    using assms(2) by (simp add: list_all_iff)
  have r: "roundToDouble (decimalValue ds) = Some (decimalValue ds)"
    using assms(3) by (simp add: roundToDouble_def)
  show ?thesis
    using assms(1) by (simp add: parseInt10_def t s z r Let_def)
qed

lemma parseInt10_decimalDigits:
  assumes "0 \<le> n" and "n < 9007199254740992"
  shows "parseInt10 (decimalDigits n) = Integer n"
  using parseInt10_digits [OF decimalDigits_not_Nil decimalDigits_digits [OF assms(1)]] assms
  by (simp add: decimalValue_decimalDigits)

lemma decimalDigits_no_space: "0 \<le> n \<Longrightarrow> CHR '' '' \<notin> set (decimalDigits n)"
proof
  assume "0 \<le> n" and "CHR '' '' \<in> set (decimalDigits n)"
  then have "isDigit CHR '' ''" using decimalDigits_digits [of n] by (auto simp: list_all_iff)
  then show False by (simp add: isDigit_def)
qed

lemma parseMxAnswer_pieces:
  assumes "CHR '' '' \<notin> set p" and "CHR '' '' \<notin> set e"
  shows "parseMxAnswer \<lparr>data = p @ '' '' @ e\<rparr> =
           Inr \<lparr>preference = parseInt10 p, exchange = stripTrailingDot (toLowerCase e)\<rparr>"
  using assms by (simp add: parseMxAnswer_def split_append_sep split_no_sep)

lemma lowerChar_spec_all: "\<forall>c. lowerChar c = spec_lowerCased c"
  by code_simp

lemma toLowerCase_spec: "toLowerCase s = map spec_lowerCased s"
  using lowerChar_spec_all by (simp add: toLowerCase_def)

text \<open>
  C8. An answer written as a preference, one space and an exchange parses to that
  preference and to the exchange in lower case without one trailing dot: every capital
  letter of the exchange is replaced by its small letter, every other character is kept,
  and one dot at the end is removed. The preference is any integer from 0 that a Number
  holds exactly, written in decimal. The answer \<open>10 mail.example.com.\<close> parses to
  preference 10 and exchange \<open>mail.example.com\<close>, and so does \<open>10 Mail.Example.COM.\<close>.
\<close>

theorem mx_answer_round_trip:
  assumes "0 \<le> n" and "n < 2 ^ 53" and "CHR '' '' \<notin> set e"
  shows "parseMxAnswer \<lparr>data = decimalDigits n @ '' '' @ e\<rparr> =
           Inr \<lparr>preference = Integer n,
                exchange = (let l = map spec_lowerCased e
                            in if l \<noteq> [] \<and> last l = CHR ''.'' then butlast l else l)\<rparr>"
proof -
  have "parseInt10 (decimalDigits n) = Integer n"
    using assms(1,2) by (intro parseInt10_decimalDigits) simp_all
  then show ?thesis
    using parseMxAnswer_pieces [OF decimalDigits_no_space [OF assms(1)] assms(3)]
    by (simp add: toLowerCase_spec stripTrailingDot_def)
qed

theorem mx_answer_round_trip_witness:
  "parseMxAnswer \<lparr>data = ''10 mail.example.com.''\<rparr> =
     Inr \<lparr>preference = Integer 10, exchange = ''mail.example.com''\<rparr> \<and>
   parseMxAnswer \<lparr>data = ''10 Mail.Example.COM.''\<rparr> =
     Inr \<lparr>preference = Integer 10, exchange = ''mail.example.com''\<rparr>"
proof -
  have p: "(0 :: int) \<le> 10" "(10 :: int) < 2 ^ 53" by simp_all
  have e: "CHR '' '' \<notin> set ''mail.example.com.''" "CHR '' '' \<notin> set ''Mail.Example.COM.''"
    by simp_all
  have s: "decimalDigits 10 = ''10''" by code_simp
  have l: "map spec_lowerCased ''mail.example.com.'' = ''mail.example.com.''"
    "map spec_lowerCased ''Mail.Example.COM.'' = ''mail.example.com.''"
    by code_simp+
  show ?thesis
    using mx_answer_round_trip [OF p e(1), unfolded s l]
      mx_answer_round_trip [OF p e(2), unfolded s l]
    by simp
qed

section \<open>Duplicate exchanges\<close>

lemma parseMxAnswer_with_space:
  assumes "CHR '' '' \<in> set (data a)"
  shows "\<exists>r. parseMxAnswer a = Inr r"
proof -
  obtain p rest where d: "data a = p @ CHR '' '' # rest" and p: "CHR '' '' \<notin> set p"
    using split_list_first [OF assms] by blast
  obtain t ts where "split CHR '' '' rest = t # ts"
    using split_not_Nil [of "CHR '' ''" rest] by (cases "split CHR '' '' rest") auto
  then show ?thesis
    using d p by (simp add: parseMxAnswer_def split_append_sep)
qed

lemma parseMxAnswers_Inr:
  "parseMxAnswers as = Inr rs \<Longrightarrow> list_all2 (\<lambda>a r. parseMxAnswer a = Inr r) as rs"
proof (induction as arbitrary: rs)
  case Nil
  then show ?case by auto
next
  case (Cons a as)
  then show ?case by (auto split: sum.splits)
qed

lemma parseMxAnswers_total:
  assumes "\<forall>a \<in> set as. CHR '' '' \<in> set (data a)"
  shows "\<exists>rs. parseMxAnswers as = Inr rs"
  using assms
proof (induction as)
  case Nil
  then show ?case by simp
next
  case (Cons a as)
  then obtain r rs where "parseMxAnswer a = Inr r" "parseMxAnswers as = Inr rs"
    using parseMxAnswer_with_space [of a] by auto
  then show ?case by simp
qed

text \<open>
  C5, as amended. When the reply has \<open>Status\<close> 0, every answer holds a space, and two
  answers at different places of the list parse to the same exchange, \<open>checkMx\<close> returns
  \<open>isValid: false\<close> with the reason "Duplicate MX exchanges found", whatever the
  preferences are.
\<close>

theorem duplicate_exchanges_rejected:
  assumes "get (mxUrl domain) = Inr response"
    and "Status response = Some 0"
    and "Answer response = Some answers"
    and "\<forall>a \<in> set answers. CHR '' '' \<in> set (data a)"
    and "i < j" and "j < length answers"
    and "parseMxAnswer (answers ! i) = Inr ri"
    and "parseMxAnswer (answers ! j) = Inr rj"
    and "exchange ri = exchange rj"
  shows "checkMx get domain = Inr (failure ''Duplicate MX exchanges found'')"
proof -
  obtain rs where rs: "parseMxAnswers answers = Inr rs"
    using parseMxAnswers_total [OF assms(4)] by blast
  then have all2: "list_all2 (\<lambda>a r. parseMxAnswer a = Inr r) answers rs"
    by (simp add: parseMxAnswers_Inr)
  then have len: "length rs = length answers"
    by (simp add: list_all2_lengthD)
  have "parseMxAnswer (answers ! i) = Inr (rs ! i)" "parseMxAnswer (answers ! j) = Inr (rs ! j)"
    using all2 assms(5,6) by (auto simp: list_all2_conv_all_nth)
  then have "rs ! i = ri" "rs ! j = rj" using assms(7,8) by auto
  then have same: "map exchange rs ! i = map exchange rs ! j"
    using assms(5,6,9) len by simp
  have "\<not> distinct (map exchange rs)"
  proof
    assume "distinct (map exchange rs)"
    then have "i = j"
      using same assms(5,6) len nth_eq_iff_index_eq [of "map exchange rs" i j] by simp
    then show False using assms(5) by simp
  qed
  then have "card (set (map exchange rs)) \<noteq> length rs"
    using card_distinct [of "map exchange rs"] by auto
  moreover have "length rs \<noteq> 0" using len assms(6) by auto
  ultimately show ?thesis
    using assms(1-3) rs by (simp add: checkMx_def)
qed

theorem duplicate_exchanges_rejected_witness:
  "checkMx (mockResolvedValue
       \<lparr>Status = Some 0,
        Answer = Some [\<lparr>data = ''10 mail.example.com.''\<rparr>, \<lparr>data = ''99 MAIL.example.com''\<rparr>]\<rparr>)
     ''example.com'' = Inr (failure ''Duplicate MX exchanges found'')"
proof -
  let ?as = "[\<lparr>data = ''10 mail.example.com.''\<rparr>, \<lparr>data = ''99 MAIL.example.com''\<rparr>]"
  let ?resp = "\<lparr>Status = Some 0, Answer = Some ?as\<rparr>"
  let ?ea = "\<lparr>preference = Integer 10, exchange = ''mail.example.com''\<rparr>"
  let ?eb = "\<lparr>preference = Integer 99, exchange = ''mail.example.com''\<rparr>"
  have g: "mockResolvedValue ?resp (mxUrl ''example.com'') = Inr ?resp"
    by (simp add: mockResolvedValue_def)
  have st: "Status ?resp = Some 0" by simp
  have an: "Answer ?resp = Some ?as" by simp
  have sp: "\<forall>a \<in> set ?as. CHR '' '' \<in> set (data a)" by simp
  have ij: "(0::nat) < 1" "1 < length ?as" by simp_all
  have p0: "parseMxAnswer (?as ! 0) = Inr ?ea"
    by code_simp
  have p1: "parseMxAnswer (?as ! 1) = Inr ?eb"
    by code_simp
  have ex: "exchange ?ea = exchange ?eb" by simp
  show ?thesis
    by (rule duplicate_exchanges_rejected
        [of "mockResolvedValue ?resp" "''example.com''" ?resp ?as 0 1 ?ea ?eb,
         OF g st an sp ij p0 p1 ex])
qed

text \<open>
  C5 as stated speaks of every answer list with two such records. With a \<open>Status\<close> other
  than 0 the status failure is returned, and with a third answer that has no space the
  parse raises before the duplicate test is reached.
\<close>

theorem duplicate_exchanges_counterexample:
  "checkMx (mockResolvedValue
       \<lparr>Status = Some 2,
        Answer = Some [\<lparr>data = ''10 mail.example.com.''\<rparr>, \<lparr>data = ''20 mail.example.com.''\<rparr>]\<rparr>)
     ''example.com'' = Inr (failure ''DNS query failed or returned an error status'') \<and>
   checkMx (mockResolvedValue
       \<lparr>Status = Some 0,
        Answer = Some [\<lparr>data = ''10 mail.example.com.''\<rparr>, \<lparr>data = ''20 mail.example.com.''\<rparr>,
                       \<lparr>data = ''30''\<rparr>]\<rparr>)
     ''example.com'' = Inl TypeError"
  by code_simp

section \<open>The SPF lookup budget\<close>

lemma startsWith_take: "startsWith s p \<longleftrightarrow> take (length p) s = p"
  by (induction s p rule: startsWith.induct) auto

lemma stripQualifier_eq: "stripQualifier t = withoutQualifier t"
  by (cases t) (auto simp: stripQualifier_def withoutQualifier_def substringFrom_def)

lemma countStep_eq:
  "countStep k t = k + (if incursLookup (withoutQualifier t) then 1 else 0)"
  by (simp add: countStep_def stripQualifier_eq incursLookup_def lookupPrefixes_def
      startsWith_take Let_def)

lemma foldl_countStep:
  "foldl countStep k ts = k + length (filter (\<lambda>t. incursLookup (withoutQualifier t)) ts)"
  by (induction ts arbitrary: k) (simp_all add: countStep_eq)

lemma not_incursLookup_empty: "\<not> incursLookup (withoutQualifier [])"
  by (simp add: incursLookup_def withoutQualifier_def lookupPrefixes_def)

lemma counted_nonempty:
  "(t \<noteq> [] \<and> incursLookup (withoutQualifier t)) = incursLookup (withoutQualifier t)"
  using not_incursLookup_empty by auto

lemma countDnsLookups_spec: "countDnsLookups text = spec_lookupCount_trimmed text"
  by (simp add: countDnsLookups_def spfMechanisms_def foldl_countStep counted_nonempty
      spec_lookupCount_trimmed_def substringFrom_def filter_map comp_def)

text \<open>
  C4, as amended. For the one answer that \<open>checkSpf\<close> selects, the lookup count is taken
  from the text without its outer quotes: the six characters of the prefix are taken off,
  the white space around the rest is trimmed, the rest is split on spaces, each piece
  loses one leading qualifier, and the pieces that are \<open>a\<close> or \<open>mx\<close> or begin with one of
  the six prefixes are counted. A count above 10 gives the failure
  "Too many DNS lookups (exceeds 10)", any other count gives \<open>isValid: true\<close> with the
  text.
\<close>

theorem spf_lookup_budget:
  assumes "get (spfUrl domain) = Inr response"
    and "Status response = Some 0"
    and "Answer response = Some answers"
    and "filter isSpfAnswer answers = [rec]"
  shows "checkSpf get domain =
           Inr (if spec_lookupCount_trimmed (stripOuterQuotes (data rec)) > 10
                then failure ''Too many DNS lookups (exceeds 10)''
                else \<lparr>isValid = True, reason = ''Valid SPF record'',
                      payload = Some (stripOuterQuotes (data rec))\<rparr>)"
proof -
  have "answers \<noteq> []" using assms(4) by auto
  then show ?thesis
    using assms by (simp add: checkSpf_def countDnsLookups_spec Let_def)
qed

theorem spf_lookup_budget_witness:
  "checkSpf (mockResolvedValue
       \<lparr>Status = Some 0,
        Answer = Some [\<lparr>data = ''v=spf1 a mx include:example.com -all''\<rparr>]\<rparr>)
     ''example.com'' =
   Inr \<lparr>isValid = True, reason = ''Valid SPF record'',
        payload = Some ''v=spf1 a mx include:example.com -all''\<rparr>"
proof -
  let ?rec = "\<lparr>data = ''v=spf1 a mx include:example.com -all''\<rparr>"
  let ?resp = "\<lparr>Status = Some 0, Answer = Some [?rec]\<rparr>"
  have g: "mockResolvedValue ?resp (spfUrl ''example.com'') = Inr ?resp"
    by (simp add: mockResolvedValue_def)
  have st: "Status ?resp = Some 0" by simp
  have an: "Answer ?resp = Some [?rec]" by simp
  have f: "filter isSpfAnswer [?rec] = [?rec]" by code_simp
  have q: "stripOuterQuotes (data ?rec) = ''v=spf1 a mx include:example.com -all''"
    by code_simp
  have n: "spec_lookupCount_trimmed ''v=spf1 a mx include:example.com -all'' = 3"
    by code_simp
  show ?thesis
    using spf_lookup_budget
      [of "mockResolvedValue ?resp" "''example.com''" ?resp "[?rec]" ?rec, OF g st an f]
    unfolding q n by simp
qed

text \<open>
  C4 as stated has no trimming. A record that ends in a tab after its eleventh \<open>a\<close> counts
  10 that way, since the last piece is not exactly \<open>a\<close>; the code trims the tab, counts
  11 and rejects the record.
\<close>

theorem spf_lookup_count_counterexample:
  "spec_lookupCount (''v=spf1 a a a a a a a a a a a'' @ [CHR 0x09]) = 10 \<and>
   checkSpf (mockResolvedValue
       \<lparr>Status = Some 0,
        Answer = Some [\<lparr>data = ''v=spf1 a a a a a a a a a a a'' @ [CHR 0x09]\<rparr>]\<rparr>)
     ''example.com'' = Inr (failure ''Too many DNS lookups (exceeds 10)'')"
  by code_simp

section \<open>Reordering and qualifying SPF terms\<close>

















section \<open>DKIM: what a probe reports and what \<open>checkDkim\<close> makes of it\<close>

lemma split_hd_prefix: "\<exists>b. s = hd (split sep s) @ b"
proof (induction s)
  case Nil
  then show ?case by simp
next
  case (Cons c cs)
  then obtain b where b: "cs = hd (split sep cs) @ b" by blast
  obtain u us where u: "split sep cs = u # us"
    using split_not_Nil [of sep cs] by (cases "split sep cs") auto
  show ?case
  proof (cases "c = sep")
    case True
    then show ?thesis by simp
  next
    case False
    have "c # cs = (c # u) @ b" using b u by simp
    then show ?thesis using False u by auto
  qed
qed

lemma split_part_included:
  "t \<in> set (split sep s) \<Longrightarrow> \<exists>a b. s = a @ t @ b"
proof (induction s arbitrary: t)
  case Nil
  then show ?case by simp
next
  case (Cons c cs)
  obtain u us where u: "split sep cs = u # us"
    using split_not_Nil [of sep cs] by (cases "split sep cs") auto
  have inner: "\<exists>a b. c # cs = a @ t' @ b" if h: "t' \<in> set (split sep cs)" for t'
  proof -
    obtain a b where "cs = a @ t' @ b" using Cons.IH [OF h] by blast
    then have "c # cs = (c # a) @ t' @ b" by simp
    then show ?thesis by blast
  qed
  show ?case
  proof (cases "c = sep")
    case True
    with Cons.prems consider "t = []" | "t \<in> set (split sep cs)" by auto
    then show ?thesis
    proof cases
      case 1
      then have "c # cs = [] @ t @ (c # cs)" by simp
      then show ?thesis by blast
    next
      case 2
      then show ?thesis by (rule inner)
    qed
  next
    case False
    with Cons.prems u consider "t = c # u" | "t \<in> set us" by auto
    then show ?thesis
    proof cases
      case 1
      obtain b where "cs = u @ b" using split_hd_prefix [of cs sep] u by auto
      then have "c # cs = [] @ t @ b" using 1 by simp
      then show ?thesis by blast
    next
      case 2
      then have "t \<in> set (split sep cs)" using u by simp
      then show ?thesis by (rule inner)
    qed
  qed
qed

lemma trim_included: "\<exists>a b. s = a @ trim s @ b"
proof -
  let ?d = "dropWhile isWhiteSpace s"
  have e: "takeWhile isWhiteSpace (rev ?d) @ dropWhile isWhiteSpace (rev ?d) = rev ?d"
    by simp
  have "trim s @ rev (takeWhile isWhiteSpace (rev ?d)) =
        rev (takeWhile isWhiteSpace (rev ?d) @ dropWhile isWhiteSpace (rev ?d))"
    by (simp only: trim_def rev_append)
  also have "\<dots> = ?d" by (simp only: e rev_rev_ident)
  finally have "takeWhile isWhiteSpace s @ trim s @ rev (takeWhile isWhiteSpace (rev ?d)) = s"
    by simp
  then show ?thesis by metis
qed

lemma includesStr_trans:
  assumes "s = a @ t @ b" and "includesStr t sub"
  shows "includesStr s sub"
proof -
  obtain x y where "t = x @ sub @ y" using assms(2) by (auto simp: includesStr_iff)
  then have "s = (a @ x) @ sub @ (y @ b)" using assms(1) by simp
  then show ?thesis unfolding includesStr_iff by blast
qed

lemma startsWith_includesStr: "startsWith s p \<Longrightarrow> includesStr s p"
proof -
  assume "startsWith s p"
  then obtain t where "s = [] @ p @ t" by (auto simp: startsWith_iff)
  then show ?thesis unfolding includesStr_iff by blast
qed

lemma exact_version_required:
  assumes "\<not> includesStr (removeQuotes rec) ''v=DKIM1''"
  shows "\<not> isValidDkimRecord rec"
proof
  assume "isValidDkimRecord rec"
  then obtain piece where piece: "piece \<in> set (split CHR '';'' (removeQuotes rec))"
    and v: "startsWith (trim piece) ''v=DKIM1''"
    by (auto simp: isValidDkimRecord_def Let_def list_ex_iff)
  obtain a b where "piece = a @ trim piece @ b" using trim_included by blast
  then have "includesStr piece ''v=DKIM1''"
    using startsWith_includesStr [OF v] includesStr_trans by blast
  moreover obtain c d where "removeQuotes rec = c @ piece @ d"
    using split_part_included [OF piece] by blast
  ultimately have "includesStr (removeQuotes rec) ''v=DKIM1''"
    using includesStr_trans by blast
  then show False using assms by simp
qed

lemma malformed_record_reported:
  assumes "get (dkimUrl domain selector) = Inr response"
    and "Answer response = Some answers"
    and "filter isDkimAnswer answers = [rec]"
    and "\<not> isValidDkimRecord (data rec)"
  shows "validateDkimForSelector get domain selector =
           Inr \<lparr>selectorIsValid = Some False,
                selectorReason = ''Invalid DKIM record format for selector '' @ selector @
                                 '' - '' @ truncateRecord (data rec)\<rparr>"
proof -
  have "answers \<noteq> []" using assms(3) by auto
  then show ?thesis using assms by (simp add: validateDkimForSelector_def Let_def)
qed

lemma hard_failure_returned:
  assumes "validateDkimForSelector get domain selector = Inr result"
    and "selectorIsValid result = Some False"
    and "\<not> includesStr (selectorReason result) ''No DKIM records found''"
    and "\<not> includesStr (selectorReason result) ''No valid DKIM records found''"
  shows "checkSelectors get domain (selector # rest) found =
           Inr (failure (selectorReason result))"
  using assms by simp

text \<open>
  The outcome of the loop in terms of that test: the first probe whose failure passes the
  test ends the check with its reason; with no such probe the selectors found valid are
  listed in the order of the scan, and with none found the check fails.
\<close>

lemma map_fst_mapSet:
  "map fst (mapSet k v es) = (if k \<in> set (map fst es) then map fst es else map fst es @ [k])"
  by (induction es) auto

lemma checkSelectors_no_hard_failure:
  assumes "\<forall>s \<in> set sels. validateDkimForSelector get domain s = Inr (probe s)"
    and "\<forall>s \<in> set sels. \<not> isHardFailure (probe s)"
    and "distinct (map fst found @ sels)"
  shows "checkSelectors get domain sels found =
           (let names = map fst found @
                        filter (\<lambda>s. selectorIsValid (probe s) = Some True) sels
            in if names \<noteq> []
               then Inr \<lparr>isValid = True, reason = ''DKIM records found'', payload = Some names\<rparr>
               else Inr (failure ''No valid DKIM records found''))"
  using assms
proof (induction sels arbitrary: found)
  case Nil
  then show ?case by (simp add: Let_def)
next
  case (Cons s sels)
  have p: "validateDkimForSelector get domain s = Inr (probe s)" using Cons.prems(1) by simp
  have nh: "\<not> isHardFailure (probe s)" using Cons.prems(2) by simp
  show ?case
  proof (cases "selectorIsValid (probe s) = Some True")
    case True
    let ?found = "mapSet s (selectorReason (probe s)) found"
    have k: "map fst ?found = map fst found @ [s]"
      using Cons.prems(3) by (simp add: map_fst_mapSet)
    then have "distinct (map fst ?found @ sels)" using Cons.prems(3) by simp
    then have "checkSelectors get domain sels ?found =
           (let names = map fst ?found @
                        filter (\<lambda>s. selectorIsValid (probe s) = Some True) sels
            in if names \<noteq> []
               then Inr \<lparr>isValid = True, reason = ''DKIM records found'', payload = Some names\<rparr>
               else Inr (failure ''No valid DKIM records found''))"
      using Cons.prems(1,2) by (intro Cons.IH) simp_all
    moreover have "checkSelectors get domain (s # sels) found =
                   checkSelectors get domain sels ?found"
      using True p by simp
    ultimately show ?thesis using True k by (simp add: Let_def)
  next
    case False
    have "distinct (map fst found @ sels)" using Cons.prems(3) by simp
    then have "checkSelectors get domain sels found =
           (let names = map fst found @
                        filter (\<lambda>s. selectorIsValid (probe s) = Some True) sels
            in if names \<noteq> []
               then Inr \<lparr>isValid = True, reason = ''DKIM records found'', payload = Some names\<rparr>
               else Inr (failure ''No valid DKIM records found''))"
      using Cons.prems(1,2) by (intro Cons.IH) simp_all
    moreover have "checkSelectors get domain (s # sels) found =
                   checkSelectors get domain sels found"
      using False p nh by (auto simp: isHardFailure_def)
    ultimately show ?thesis using False by (simp add: Let_def)
  qed
qed

lemma checkSelectors_first_hard_failure:
  assumes "\<forall>s \<in> set before. \<exists>r. validateDkimForSelector get domain s = Inr r \<and> \<not> isHardFailure r"
    and "validateDkimForSelector get domain s = Inr r"
    and "isHardFailure r"
  shows "checkSelectors get domain (before @ s # rest) found = Inr (failure (selectorReason r))"
  using assms(1)
proof (induction before arbitrary: found)
  case Nil
  then show ?case using assms(2,3) by (simp add: isHardFailure_def)
next
  case (Cons b before)
  then obtain rb where rb: "validateDkimForSelector get domain b = Inr rb" "\<not> isHardFailure rb"
    by auto
  have ih: "checkSelectors get domain (before @ s # rest) f = Inr (failure (selectorReason r))"
    for f using Cons by simp
  show ?case using rb ih by (auto simp: isHardFailure_def)
qed

text \<open>
  C3 says that a malformed record makes \<open>checkDkim\<close> return that failure at once. The
  loop tells the failures apart by searching the reason text, and the reason of a malformed
  record quotes the record. Here the record of \<open>selector1\<close> is malformed and holds the words
  "No DKIM records found": the probe reports "Invalid DKIM record format", the loop takes
  it for a selector without a record, goes on to \<open>selector2\<close>, and the whole check is valid.
\<close>

theorem malformed_record_hidden_by_its_text:
  "validateDkimForSelector
     (mockImplementation
        [(dkimUrl ''example.com'' ''selector1'',
          \<lparr>Status = Some 0, Answer = Some [\<lparr>data = ''v=DKIM1; No DKIM records found''\<rparr>]\<rparr>),
         (dkimUrl ''example.com'' ''selector2'',
          \<lparr>Status = Some 0, Answer = Some [\<lparr>data = ''v=DKIM1; k=rsa; p=KEY''\<rparr>]\<rparr>)])
     ''example.com'' ''selector1'' =
     Inr \<lparr>selectorIsValid = Some False,
          selectorReason =
            ''Invalid DKIM record format for selector selector1 - v=DKIM1; No DKIM records found''\<rparr> \<and>
   checkDkim
     (mockImplementation
        [(dkimUrl ''example.com'' ''selector1'',
          \<lparr>Status = Some 0, Answer = Some [\<lparr>data = ''v=DKIM1; No DKIM records found''\<rparr>]\<rparr>),
         (dkimUrl ''example.com'' ''selector2'',
          \<lparr>Status = Some 0, Answer = Some [\<lparr>data = ''v=DKIM1; k=rsa; p=KEY''\<rparr>]\<rparr>)])
     ''example.com'' (Some ''microsoft'') =
     Inr \<lparr>isValid = True, reason = ''DKIM records found'', payload = Some [''selector2'']\<rparr>"
  by code_simp

text \<open>
  C9 says that a record tagged \<open>v=dkim1\<close> in lower case makes \<open>checkDkim\<close> fail at once
  with an "Invalid DKIM record format" reason. The probe does reject every record without
  the exact text \<open>v=DKIM1\<close> (\<open>exact_version_required\<close>), and the loop returns that failure
  when its reason holds neither marker (\<open>hard_failure_returned\<close>). Here the record is in
  lower case and holds the words "No DKIM records found": the selector is skipped and
  the check ends with "No valid DKIM records found".
\<close>

theorem lowercase_version_skipped_by_its_text:
  "validateDkimForSelector
     (mockResolvedValue
        \<lparr>Status = Some 0,
         Answer = Some [\<lparr>data = ''v=dkim1; k=rsa; p=KEY; n=No DKIM records found''\<rparr>]\<rparr>)
     ''example.com'' ''google'' =
     Inr \<lparr>selectorIsValid = Some False,
          selectorReason =
            ''Invalid DKIM record format for selector google - v=dkim1; k=rsa; p=KEY; n=No DKIM records found''\<rparr> \<and>
   checkDkim
     (mockResolvedValue
        \<lparr>Status = Some 0,
         Answer = Some [\<lparr>data = ''v=dkim1; k=rsa; p=KEY; n=No DKIM records found''\<rparr>]\<rparr>)
     ''example.com'' (Some ''google'') =
     Inr (failure ''No valid DKIM records found'')"
  by code_simp

end
